theory Spec2Isabelle
  imports Main
begin

section \<open>Data model\<close>

text \<open>
  The development embeds the folder and file core of the storage manager: the Mongoose
  models \<^verbatim>\<open>folder.model.js\<close> (\<^verbatim>\<open>src/unnamed/part_000\<close>) and \<^verbatim>\<open>file.model.js\<close> (instance
  methods, virtuals and the \<^verbatim>\<open>pre('save')\<close> hooks) and the controllers
  \<^verbatim>\<open>folder.controller.js\<close> (the second file of \<^verbatim>\<open>src/unnamed/part_005\<close>),
  \<^verbatim>\<open>folder.controller.part2.js\<close> and \<^verbatim>\<open>file.controller.js\<close>.

  Conventions of the embedding.
  \<^item> Object ids and user ids are natural numbers; a nullable reference is an \<open>option\<close>
    (\<open>None\<close> is \<^verbatim>\<open>null\<close>/absent, which is what the truthiness tests of the source ask).
  \<^item> A collection is the list of its documents in insertion order, and a query of a model
    is a total function on this list. In the controllers only \<^verbatim>\<open>Folder\<close> is bound to its
    model; \<^verbatim>\<open>File\<close> and \<^verbatim>\<open>User\<close> are bound to the export objects of their modules, and a
    query on them throws (see the section on the models as the controllers import them).
    Schema validation, timestamps and the fields no embedded operation reads are left out.
  \<^item> JavaScript numbers are integers here; strings are \<open>string\<close>.
  \<^item> A document held by a controller is a copy of the stored one; \<^verbatim>\<open>save()\<close> runs the
    \<^verbatim>\<open>pre('save')\<close> hook and then writes the paths the controller or the hook assigned.
  \<^item> An operation returns the HTTP response together with the database it leaves behind.
    Calls into collaborators (object storage, risk scoring, scan queue) are parameters whose
    value \<open>None\<close> (\<open>Inl\<close> for the risk scoring) means that the call threw.
\<close>

record share =
  user :: nat
  permission :: string
  sharedBy :: nat
  message :: "string option"

text \<open>
  Every document has its \<^verbatim>\<open>_id\<close> (\<open>oid\<close>); folders and files have \<^verbatim>\<open>name\<close>, \<^verbatim>\<open>owner\<close> and
  \<^verbatim>\<open>sharedWith\<close> in common.
\<close>

record doc =
  oid :: nat

record resource = doc +
  name :: string
  owner :: nat
  sharedWith :: "share list"

record folder = resource +
  parent :: "nat option"
  path :: string
  isTrash :: bool
  folderCount :: int

datatype file_status = Active | Quarantined | Deleted | Uploading | Processing

text \<open>The verdict of the risk-scoring collaborator, as \<^verbatim>\<open>uploadFile\<close> reads it.\<close>

record risk =
  riskScore :: int
  riskLevel :: string
  isMalicious :: bool
  requiresReview :: bool

record version_entry =
  version :: int
  storageKey :: string
  v_size :: int
  v_mimeType :: string
  uploadedBy :: nat

text \<open>
  The file document. \<open>folderRef\<close> is the field \<^verbatim>\<open>folder\<close>, \<open>fsize\<close> the field \<^verbatim>\<open>size\<close>,
  \<open>storage_key\<close> and \<open>storage_url\<close> the paths \<^verbatim>\<open>storage.key\<close> and \<^verbatim>\<open>storage.url\<close>; \<open>downloads\<close>
  keeps the downloading user of each entry.
\<close>

record file_doc = resource +
  mimeType :: string
  fsize :: int
  folderRef :: "nat option"
  status :: file_status
  storage_key :: string
  storage_url :: string
  riskAssessment :: "risk option"
  currentVersion :: int
  versions :: "version_entry list"
  downloads :: "nat list"
  quarantinedBy :: "nat option"
  quarantineReason :: "string option"
  restoredBy :: "nat option"
  restoreReason :: "string option"

record account = doc +
  storageUsed :: int
  storageQuota :: int

record db =
  folders :: "folder list"
  files :: "file_doc list"
  users :: "account list"

datatype response = Response nat string

text \<open>An exception of the JavaScript runtime, caught by a controller.\<close>

datatype js_error = TypeError

section \<open>Collection operations\<close>

text \<open>\<^verbatim>\<open>Model.findById(id)\<close>\<close>

definition findById :: "'a doc_scheme list \<Rightarrow> nat \<Rightarrow> 'a doc_scheme option" where
  "findById ds i = find (\<lambda>d. oid d = i) ds"

text \<open>\<^verbatim>\<open>Model.updateOne({ _id: id }, update)\<close>: the first document with the id is updated.\<close>

fun updateById :: "('a doc_scheme \<Rightarrow> 'a doc_scheme) \<Rightarrow> nat \<Rightarrow> 'a doc_scheme list \<Rightarrow> 'a doc_scheme list" where
  "updateById g i [] = []"
| "updateById g i (d # ds) = (if oid d = i then g d # ds else d # updateById g i ds)"

text \<open>\<^verbatim>\<open>Model.findByIdAndDelete(id)\<close>: the first document with the id is removed.\<close>

fun findByIdAndDelete :: "'a doc_scheme list \<Rightarrow> nat \<Rightarrow> 'a doc_scheme list" where
  "findByIdAndDelete [] i = []"
| "findByIdAndDelete (d # ds) i = (if oid d = i then ds else d # findByIdAndDelete ds i)"

text \<open>\<^verbatim>\<open>Folder.updateOne({ _id: id }, { $inc: { folderCount: k } })\<close>\<close>

definition incFolderCount :: "folder list \<Rightarrow> nat \<Rightarrow> int \<Rightarrow> folder list" where
  "incFolderCount fs i k = updateById (\<lambda>d. d\<lparr>folderCount := folderCount d + k\<rparr>) i fs"

section \<open>Access control: \<^verbatim>\<open>hasPermission\<close>\<close>

text \<open>\<^verbatim>\<open>const PERMISSIONS = { VIEW: 'view', EDIT: 'edit', MANAGE: 'manage' }\<close>\<close>

definition VIEW :: string where "VIEW = ''view''"
definition EDIT :: string where "EDIT = ''edit''"
definition MANAGE :: string where "MANAGE = ''manage''"

text \<open>\<^verbatim>\<open>Object.values(PERMISSIONS)\<close>, in insertion order.\<close>

definition permissionLevels :: "string list" where
  "permissionLevels = [VIEW, EDIT, MANAGE]"

text \<open>\<^verbatim>\<open>Array.prototype.indexOf\<close>: the first index of the element, \<open>-1\<close> when it is absent.\<close>

fun indexOfFrom :: "int \<Rightarrow> 'a list \<Rightarrow> 'a \<Rightarrow> int" where
  "indexOfFrom i [] x = -1"
| "indexOfFrom i (y # ys) x = (if y = x then i else indexOfFrom (i + 1) ys x)"

definition indexOf :: "'a list \<Rightarrow> 'a \<Rightarrow> int" where
  "indexOf xs x = indexOfFrom 0 xs x"

text \<open>
  \<^verbatim>\<open>folderSchema.methods.hasPermission\<close> and \<^verbatim>\<open>fileSchema.methods.hasPermission\<close> have the
  same body; it reads \<^verbatim>\<open>this.owner\<close> and \<^verbatim>\<open>this.sharedWith\<close> only, so one definition
  on the common part of the two records embeds both.
\<close>

definition hasPermission :: "'a resource_scheme \<Rightarrow> nat \<Rightarrow> string \<Rightarrow> bool" where
  "hasPermission this userId requiredPermission =
     (if owner this = userId then True
      else case find (\<lambda>s. user s = userId) (sharedWith this) of
             None \<Rightarrow> False
           | Some sharedAccess \<Rightarrow>
               (let userLevel = indexOf permissionLevels (permission sharedAccess);
                    requiredLevel = indexOf permissionLevels requiredPermission
                in userLevel \<ge> requiredLevel))"

text \<open>
  Written from the specification, for comparison with \<open>hasPermission\<close>: the ordinal of a
  level under the fixed ordering view(0) < edit(1) < manage(2), and the check \<^verbatim>\<open>check(resource,
  userId, required)\<close>: the owner passes; otherwise the user's grant is looked up, its
  absence denies, and a grant at or above the required level allows.
\<close>

definition spec_ordinal :: "string \<Rightarrow> nat option" where
  "spec_ordinal level =
     (if level = ''view'' then Some 0
      else if level = ''edit'' then Some 1
      else if level = ''manage'' then Some 2
      else None)"

definition spec_check :: "'a resource_scheme \<Rightarrow> nat \<Rightarrow> string \<Rightarrow> bool" where
  "spec_check r userId required =
     (if owner r = userId then True
      else case find (\<lambda>s. user s = userId) (sharedWith r) of
             None \<Rightarrow> False
           | Some grant \<Rightarrow>
               (case spec_ordinal (permission grant) of
                  None \<Rightarrow> False
                | Some granted \<Rightarrow>
                    (case spec_ordinal required of
                       None \<Rightarrow> False
                     | Some needed \<Rightarrow> granted \<ge> needed)))"

section \<open>The folder model: virtual \<^verbatim>\<open>fullPath\<close> and the \<^verbatim>\<open>pre('save')\<close> hook\<close>

text \<open>
  \<^verbatim>\<open>if (!this.parent) return `/${this.name}`; return `${this.path}${this.name}/`;\<close>
\<close>

definition fullPath :: "folder \<Rightarrow> string" where
  "fullPath this = (if parent this = None then ''/'' @ name this
                    else path this @ name this @ ''/'')"

text \<open>
  The model file declares \<^verbatim>\<open>async function updateDescendantPaths(parentId, parentPath)\<close>,
  whose first statement is \<^verbatim>\<open>await this.constructor.find({ parent: parentId })\<close>. The hook
  calls it as \<^verbatim>\<open>updateDescendantPaths(this._id, this.path)\<close>, a plain call without a
  receiver: inside, \<^verbatim>\<open>this\<close> is not the document. In strict code it is \<^verbatim>\<open>undefined\<close>, and
  reading \<^verbatim>\<open>this.constructor\<close> raises a \<^verbatim>\<open>TypeError\<close>; otherwise (the file has no
  \<^verbatim>\<open>'use strict'\<close>) it is the global object, whose \<^verbatim>\<open>constructor\<close> is \<^verbatim>\<open>Object\<close>, and
  \<^verbatim>\<open>Object.find\<close> is \<^verbatim>\<open>undefined\<close>, so calling it raises a \<^verbatim>\<open>TypeError\<close>. Either way the
  first statement throws before any query is made: the call rejects whatever its arguments,
  the \<^verbatim>\<open>await\<close> in the hook rethrows, and \<^verbatim>\<open>save()\<close> rejects without writing.
\<close>

definition model_updateDescendantPaths :: "folder list \<Rightarrow> nat \<Rightarrow> string \<Rightarrow> js_error + folder list" where
  "model_updateDescendantPaths fs parentId parentPath = Inl TypeError"

text \<open>
  \<^verbatim>\<open>folderSchema.pre('save', ...)\<close>, without the timestamps. \<open>isNew\<close> is \<^verbatim>\<open>this.isNew\<close> and
  \<open>parentModified\<close> is \<^verbatim>\<open>this.isModified('parent')\<close>. The hook returns the collection (it
  increments the parent's \<^verbatim>\<open>folderCount\<close>) and the document (it assigns \<^verbatim>\<open>this.path\<close>).
  In the second branch nothing follows the rejected call; \<^verbatim>\<open>this._originalParent\<close>, which
  guards the count updates after it, is assigned nowhere in the repository.
\<close>

definition folder_pre_save ::
  "folder list \<Rightarrow> bool \<Rightarrow> bool \<Rightarrow> folder \<Rightarrow> js_error + (folder list \<times> folder)" where
  "folder_pre_save fs isNew parentModified this =
     (if isNew then
        (let this1 = (case parent this of
                        None \<Rightarrow> this
                      | Some p \<Rightarrow> (case findById fs p of
                                    None \<Rightarrow> this
                                  | Some parentFolder \<Rightarrow> this\<lparr>path := fullPath parentFolder\<rparr>));
             fs1 = (case parent this of
                      None \<Rightarrow> fs
                    | Some p \<Rightarrow> incFolderCount fs p 1)
         in Inr (fs1, this1))
      else if parentModified then
        (let oldParent = (case parent this of None \<Rightarrow> None | Some p \<Rightarrow> findById fs p);
             newPath = (case oldParent of
                          Some par \<Rightarrow> fullPath par @ name this @ ''/''
                        | None \<Rightarrow> ''/'' @ name this @ ''/'');
             this1 = this\<lparr>path := newPath\<rparr>
         in case model_updateDescendantPaths fs (oid this1) (path this1) of
              Inl e \<Rightarrow> Inl e
            | Inr fs1 \<Rightarrow> Inr (fs1, this1))
      else Inr (fs, this))"

text \<open>
  \<^verbatim>\<open>save()\<close> of a document created with \<^verbatim>\<open>new Folder(...)\<close>: the hook runs, then the
  document is inserted.
\<close>

definition save_new_folder :: "folder list \<Rightarrow> folder \<Rightarrow> js_error + (folder list \<times> folder)" where
  "save_new_folder fs this =
     (case folder_pre_save fs True True this of
        Inl e \<Rightarrow> Inl e
      | Inr (fs1, this1) \<Rightarrow> Inr (fs1 @ [this1], this1))"

text \<open>
  \<^verbatim>\<open>save()\<close> of a document that was loaded as \<open>loaded\<close> and is now \<open>this\<close>: the hook runs,
  then the paths whose value differs from the loaded one are written to the stored document.
\<close>

definition write_folder :: "folder \<Rightarrow> folder \<Rightarrow> folder \<Rightarrow> folder" where
  "write_folder loaded this stored =
     stored\<lparr>name := (if name this \<noteq> name loaded then name this else name stored),
            owner := (if owner this \<noteq> owner loaded then owner this else owner stored),
            sharedWith := (if sharedWith this \<noteq> sharedWith loaded then sharedWith this
                           else sharedWith stored),
            parent := (if parent this \<noteq> parent loaded then parent this else parent stored),
            path := (if path this \<noteq> path loaded then path this else path stored),
            isTrash := (if isTrash this \<noteq> isTrash loaded then isTrash this else isTrash stored),
            folderCount := (if folderCount this \<noteq> folderCount loaded then folderCount this
                            else folderCount stored)\<rparr>"

definition save_folder :: "folder list \<Rightarrow> folder \<Rightarrow> folder \<Rightarrow> js_error + (folder list \<times> folder)" where
  "save_folder fs loaded this =
     (case folder_pre_save fs False (parent this \<noteq> parent loaded) this of
        Inl e \<Rightarrow> Inl e
      | Inr (fs1, this1) \<Rightarrow> Inr (updateById (write_folder loaded this1) (oid this1) fs1, this1))"

section \<open>The folder controller\<close>

text \<open>
  \<^verbatim>\<open>updateDescendantPaths\<close> of the controller. The children are the snapshot that
  \<^verbatim>\<open>Folder.find({ parent: parentId })\<close> returned; \<^verbatim>\<open>child.save()\<close> changes the path only, so
  the hook has nothing to do and the path is written. The recursion of the source is not
  bounded (on a parent cycle every pass lengthens the paths), so the embedding has a fuel
  for its depth: \<open>None\<close> is "has not returned".
\<close>

fun updateDescendantPaths :: "nat \<Rightarrow> folder list \<Rightarrow> nat \<Rightarrow> string \<Rightarrow> folder list option" where
  "updateDescendantPaths 0 fs parentId parentPath = None"
| "updateDescendantPaths (Suc n) fs parentId parentPath =
     fold (\<lambda>child acc.
             case acc of
               None \<Rightarrow> None
             | Some fs1 \<Rightarrow>
                 (let oldPath = path child;
                      newPath = parentPath @ name child @ ''/''
                  in if oldPath \<noteq> newPath
                     then updateDescendantPaths n
                            (updateById (\<lambda>d. d\<lparr>path := newPath\<rparr>) (oid child) fs1)
                            (oid child) newPath
                     else Some fs1))
          (filter (\<lambda>c. parent c = Some parentId) fs) (Some fs)"

text \<open>
  \<^verbatim>\<open>isDescendantFolder(parentId, childId)\<close>: the \<^verbatim>\<open>while (currentId)\<close> loop walks the parent
  chain of \<open>childId\<close>. It need not terminate on a cyclic chain, hence a partial function.
\<close>

partial_function (option) isDescendantLoop :: "folder list \<Rightarrow> nat \<Rightarrow> nat option \<Rightarrow> bool option" where
  "isDescendantLoop fs parentId currentId =
     (case currentId of
        None \<Rightarrow> Some False
      | Some c \<Rightarrow>
          (case findById fs c of
             None \<Rightarrow> Some False
           | Some f \<Rightarrow>
               if parent f = Some parentId then Some True
               else isDescendantLoop fs parentId (parent f)))"

declare isDescendantLoop.simps [code]

definition isDescendantFolder :: "folder list \<Rightarrow> nat option \<Rightarrow> nat option \<Rightarrow> bool option" where
  "isDescendantFolder fs parentId childId =
     (case parentId of
        None \<Rightarrow> Some False
      | Some p \<Rightarrow> (case childId of
                    None \<Rightarrow> Some False
                  | Some c \<Rightarrow> isDescendantLoop fs p (Some c)))"

text \<open>
  \<^verbatim>\<open>exports.moveFolder\<close>, branch \<^verbatim>\<open>if (!parentId)\<close>: move to root. The \<^verbatim>\<open>catch\<close> of the
  controller answers 500 to whatever was thrown, with the writes made so far in place.
\<close>

definition moveFolder_toRoot :: "nat \<Rightarrow> db \<Rightarrow> folder \<Rightarrow> (response \<times> db) option" where
  "moveFolder_toRoot fuel d f =
     (let fs1 = (case parent f of
                   Some p \<Rightarrow> incFolderCount (folders d) p (-1)
                 | None \<Rightarrow> folders d)
      in case save_folder fs1 f (f\<lparr>parent := None, path := ''/''\<rparr>) of
           Inl e \<Rightarrow> Some (Response 500 ''Error moving folder'', d\<lparr>folders := fs1\<rparr>)
         | Inr (fs2, f2) \<Rightarrow>
             (case updateDescendantPaths fuel fs2 (oid f2) (path f2) of
                None \<Rightarrow> None
              | Some fs3 \<Rightarrow> Some (Response 200 ''Folder moved to root'', d\<lparr>folders := fs3\<rparr>)))"

text \<open>The same function after its checks, for a destination \<open>newParent\<close> with id \<open>pid\<close>.\<close>

definition moveFolder_into :: "nat \<Rightarrow> db \<Rightarrow> folder \<Rightarrow> nat \<Rightarrow> folder \<Rightarrow> (response \<times> db) option" where
  "moveFolder_into fuel d f pid newParent =
     (let fs1 = (case parent f of
                   Some p \<Rightarrow> if p \<noteq> pid then incFolderCount (folders d) p (-1) else folders d
                 | None \<Rightarrow> folders d);
          fs2 = (if parent f = None \<or> parent f \<noteq> Some pid then incFolderCount fs1 pid 1 else fs1)
      in case save_folder fs2 f (f\<lparr>parent := Some pid, path := path newParent @ name newParent @ ''/''\<rparr>) of
           Inl e \<Rightarrow> Some (Response 500 ''Error moving folder'', d\<lparr>folders := fs2\<rparr>)
         | Inr (fs3, f3) \<Rightarrow>
             (case updateDescendantPaths fuel fs3 (oid f3) (path f3) of
                None \<Rightarrow> None
              | Some fs4 \<Rightarrow> Some (Response 200 ''Folder moved successfully'', d\<lparr>folders := fs4\<rparr>)))"

text \<open>
  \<^verbatim>\<open>exports.moveFolder\<close>: \<open>userId\<close> is \<^verbatim>\<open>req.user._id\<close>, \<open>folderId\<close> is \<^verbatim>\<open>req.params.id\<close> and
  \<open>parentId\<close> is \<^verbatim>\<open>req.body.parentId\<close>. The result is \<open>None\<close> when the request is never
  answered.
\<close>

definition moveFolder :: "nat \<Rightarrow> db \<Rightarrow> nat \<Rightarrow> nat \<Rightarrow> nat option \<Rightarrow> (response \<times> db) option" where
  "moveFolder fuel d userId folderId parentId =
     (case findById (folders d) folderId of
        None \<Rightarrow> Some (Response 404 ''Folder not found'', d)
      | Some f \<Rightarrow>
          if owner f \<noteq> userId \<and> \<not> hasPermission f userId EDIT
          then Some (Response 403 ''You do not have permission to move this folder'', d)
          else (case parentId of
                  None \<Rightarrow> moveFolder_toRoot fuel d f
                | Some pid \<Rightarrow>
                    (case findById (folders d) pid of
                       None \<Rightarrow> Some (Response 404 ''Destination folder not found'', d)
                     | Some newParent \<Rightarrow>
                         if owner newParent \<noteq> userId \<and> \<not> hasPermission newParent userId EDIT
                         then Some (Response 403
                                ''You do not have permission to move to the destination folder'', d)
                         else if oid f = pid
                         then Some (Response 400 ''Cannot move a folder into itself'', d)
                         else (case isDescendantFolder (folders d) (Some (oid f)) (Some pid) of
                                 None \<Rightarrow> None
                               | Some True \<Rightarrow>
                                   Some (Response 400
                                     ''Cannot move a folder into one of its subfolders'', d)
                               | Some False \<Rightarrow>
                                   (case find (\<lambda>g. name g = name f \<and> parent g = Some pid
                                                  \<and> owner g = owner f \<and> \<not> isTrash g
                                                  \<and> oid g \<noteq> oid f) (folders d) of
                                      Some existingFolder \<Rightarrow>
                                        Some (Response 409
                                          ''A folder with this name already exists in the destination'', d)
                                    | None \<Rightarrow> moveFolder_into fuel d f pid newParent)))))"

text \<open>
  \<^verbatim>\<open>String.prototype.trim\<close> on the ASCII white space (space, tab, line feed, vertical tab,
  form feed, carriage return).
\<close>

definition js_space :: "char \<Rightarrow> bool" where
  "js_space c = (c \<in> set [CHR '' '', CHR 0x09, CHR 0x0A, CHR 0x0B, CHR 0x0C, CHR 0x0D])"

definition trim :: "string \<Rightarrow> string" where
  "trim s = rev (dropWhile js_space (rev (dropWhile js_space s)))"

text \<open>
  The end of \<^verbatim>\<open>exports.createFolder\<close>: \<^verbatim>\<open>await folder.save()\<close> of the new document and the
  answer 201, on the collection \<open>fs\<close> as the earlier steps left it.
\<close>

definition createFolder_save :: "db \<Rightarrow> folder list \<Rightarrow> folder \<Rightarrow> response \<times> db" where
  "createFolder_save d fs newFolder =
     (case save_new_folder fs newFolder of
        Inl e \<Rightarrow> (Response 500 ''Error creating folder'', d\<lparr>folders := fs\<rparr>)
      | Inr (fs1, saved) \<Rightarrow> (Response 201 [], d\<lparr>folders := fs1\<rparr>))"

text \<open>
  \<^verbatim>\<open>exports.createFolder\<close>: \<open>userId\<close> is \<^verbatim>\<open>req.user._id\<close>, \<open>nm\<close> and \<open>parentId\<close> are
  \<^verbatim>\<open>req.body.name\<close> and \<^verbatim>\<open>req.body.parent\<close>, and \<open>newId\<close> is the id that
  \<^verbatim>\<open>new Folder(...)\<close> generates. A missing name is the empty string. The answer 201 carries
  the folder and no message.
\<close>

definition createFolder :: "db \<Rightarrow> nat \<Rightarrow> nat \<Rightarrow> string \<Rightarrow> nat option \<Rightarrow> response \<times> db" where
  "createFolder d userId newId nm parentId =
     (if trim nm = [] then (Response 400 ''Folder name is required'', d)
      else case find (\<lambda>g. name g = trim nm \<and> parent g = parentId \<and> owner g = userId
                          \<and> \<not> isTrash g) (folders d) of
             Some existingFolder \<Rightarrow>
               (Response 409 ''A folder with this name already exists in this location'', d)
           | None \<Rightarrow>
               (let newFolder = \<lparr>oid = newId, name = trim nm, owner = userId, sharedWith = [],
                                 parent = parentId, path = ''/'', isTrash = False,
                                 folderCount = 0\<rparr>
                in case parentId of
                     None \<Rightarrow> createFolder_save d (folders d) (newFolder\<lparr>path := ''/''\<rparr>)
                   | Some p \<Rightarrow>
                       (case findById (folders d) p of
                          None \<Rightarrow> (Response 404 ''Parent folder not found'', d)
                        | Some parentFolder \<Rightarrow>
                            if owner parentFolder \<noteq> userId
                               \<and> \<not> hasPermission parentFolder userId EDIT
                            then (Response 403
                                   ''You do not have permission to create a folder here'', d)
                            else (case save_folder (folders d) parentFolder
                                         (parentFolder\<lparr>folderCount := folderCount parentFolder + 1\<rparr>) of
                                    Inl e \<Rightarrow> (Response 500 ''Error creating folder'', d)
                                  | Inr (fs1, savedParent) \<Rightarrow>
                                      createFolder_save d fs1
                                        (newFolder\<lparr>path := path parentFolder @ name parentFolder @ ''/''\<rparr>)))))"

section \<open>The file model: the \<^verbatim>\<open>pre('save')\<close> hook\<close>

text \<open>
  \<^verbatim>\<open>fileSchema.pre('save', ...)\<close>, without the timestamps. \<open>keyModified\<close> is
  \<^verbatim>\<open>this.isModified('storage.key')\<close>. The hook reads the document as it is about to be
  written: \<^verbatim>\<open>this.storage.key\<close>, \<^verbatim>\<open>this.size\<close> and \<^verbatim>\<open>this.mimeType\<close> are the values the caller
  has assigned. \<^verbatim>\<open>this.storage && this.storage.key\<close> asks for a non-empty key.
\<close>

definition file_pre_save :: "bool \<Rightarrow> bool \<Rightarrow> file_doc \<Rightarrow> file_doc" where
  "file_pre_save isNew keyModified this =
     (if keyModified \<and> \<not> isNew then
        (if storage_key this \<noteq> [] then
           this\<lparr>versions := versions this @
                    [\<lparr>version = currentVersion this, storageKey = storage_key this,
                      v_size = fsize this, v_mimeType = mimeType this,
                      uploadedBy = owner this\<rparr>],
                currentVersion := currentVersion this + 1\<rparr>
         else this)
      else this)"

text \<open>\<^verbatim>\<open>save()\<close> of a document created with \<^verbatim>\<open>new File(...)\<close>.\<close>

definition save_new_file :: "file_doc list \<Rightarrow> file_doc \<Rightarrow> file_doc list" where
  "save_new_file fs this = fs @ [file_pre_save True True this]"

text \<open>
  \<^verbatim>\<open>save()\<close> of a document loaded as \<open>loaded\<close> and now \<open>this\<close>. The file controllers write
  nothing to the file collection between the load and the save, so writing the modified
  paths is replacing the stored document.
\<close>

definition save_file :: "file_doc list \<Rightarrow> file_doc \<Rightarrow> file_doc \<Rightarrow> file_doc list" where
  "save_file fs loaded this =
     updateById (\<lambda>stored. file_pre_save False (storage_key this \<noteq> storage_key loaded) this)
       (oid this) fs"

section \<open>The models as the controllers import them\<close>

text \<open>
  The controllers \<^verbatim>\<open>file.controller.js\<close>, \<^verbatim>\<open>folder.controller.js\<close> and
  \<^verbatim>\<open>folder.controller.part2.js\<close> bind the models with
  \<^verbatim>\<open>const Folder = require('../models/folder.model')\<close>,
  \<^verbatim>\<open>const File = require('../models/file.model')\<close> and
  \<^verbatim>\<open>const User = require('../models/user.model')\<close>. The folder model ends with
  \<^verbatim>\<open>module.exports = Folder\<close>, so \<^verbatim>\<open>Folder\<close> is the model. The file model ends with
  \<^verbatim>\<open>module.exports = { File, FILE_STATUS, FILE_VISIBILITY, FILE_PERMISSIONS }\<close> and the user
  model with \<^verbatim>\<open>module.exports = { User, USER_ROLES, USER_STATUS }\<close>: in the controllers
  \<^verbatim>\<open>File\<close> and \<^verbatim>\<open>User\<close> are these plain objects. They have no property \<^verbatim>\<open>findById\<close>,
  \<^verbatim>\<open>findOne\<close>, \<^verbatim>\<open>deleteMany\<close>, \<^verbatim>\<open>updateMany\<close> or \<^verbatim>\<open>findByIdAndDelete\<close>, so each of these
  calls is a call of \<^verbatim>\<open>undefined\<close> and raises a \<^verbatim>\<open>TypeError\<close> before any query is made,
  whatever its arguments; \<^verbatim>\<open>new File(...)\<close> raises a \<^verbatim>\<open>TypeError\<close> as well, the object
  not being a constructor. (\<^verbatim>\<open>FILE_PERMISSIONS\<close> is imported by destructuring and is the
  table of the model.)
\<close>

definition File_findById :: "file_doc list \<Rightarrow> nat \<Rightarrow> js_error + file_doc option" where
  "File_findById fs i = Inl TypeError"

definition File_findOne :: "file_doc list \<Rightarrow> (file_doc \<Rightarrow> bool) \<Rightarrow> js_error + file_doc option" where
  "File_findOne fs query = Inl TypeError"

definition File_deleteMany :: "file_doc list \<Rightarrow> (file_doc \<Rightarrow> bool) \<Rightarrow> js_error + file_doc list" where
  "File_deleteMany fs query = Inl TypeError"

definition File_updateMany ::
  "file_doc list \<Rightarrow> (file_doc \<Rightarrow> bool) \<Rightarrow> (file_doc \<Rightarrow> file_doc) \<Rightarrow> js_error + file_doc list" where
  "File_updateMany fs query update = Inl TypeError"

definition File_findByIdAndDelete :: "file_doc list \<Rightarrow> nat \<Rightarrow> js_error + file_doc list" where
  "File_findByIdAndDelete fs i = Inl TypeError"

definition new_File :: "file_doc \<Rightarrow> js_error + file_doc" where
  "new_File document = Inl TypeError"

definition User_findById :: "account list \<Rightarrow> nat \<Rightarrow> js_error + account option" where
  "User_findById us i = Inl TypeError"

section \<open>The risk-scoring service\<close>



section \<open>The file controller\<close>


text \<open>\<^verbatim>\<open>req.file\<close> of multer, and the folder id of the request body.\<close>

record upload =
  originalname :: string
  mimetype :: string
  u_size :: int
  folderId :: "nat option"

text \<open>
  What an upload request meets: the configured size limit, the outcome of the call
  \<^verbatim>\<open>riskScoringService.calculateRiskScore(...)\<close> as the controller sees it (\<open>Inl\<close>: the call
  throws), what \<^verbatim>\<open>storageService.uploadFile\<close> returns (key and url; \<open>None\<close>: it throws), the
  id of the new record, and the scan queue (\<open>None\<close>: scanning is disabled; \<open>Some False\<close>:
  \<^verbatim>\<open>fileScanQueue.add\<close> throws).
\<close>

record upload_env =
  maxFileSize :: int
  calculateRiskScore :: "js_error + risk"
  storage_uploadFile :: "(string \<times> string) option"
  newFileId :: nat
  scanQueue :: "bool option"

text \<open>The verdict that the \<^verbatim>\<open>catch\<close> around the risk assessment builds.\<close>

definition assessment_failed :: risk where
  "assessment_failed = \<lparr>riskScore = 100, riskLevel = ''high'', isMalicious = True,
                         requiresReview = True\<rparr>"

text \<open>
  The \<^verbatim>\<open>try\<close>/\<^verbatim>\<open>catch\<close> around the risk assessment in \<^verbatim>\<open>uploadFile\<close>: a verdict that the
  service returns is acted on at once (\<open>Inl\<close>: the answer 403, when it is malicious or of
  level \<^verbatim>\<open>high\<close>); when the call throws, the \<^verbatim>\<open>catch\<close> substitutes \<open>assessment_failed\<close> and the
  upload goes on with it.
\<close>

definition uploadFile_assess :: "js_error + risk \<Rightarrow> response + risk" where
  "uploadFile_assess outcome =
     (case outcome of
        Inr verdict \<Rightarrow>
          if isMalicious verdict \<or> riskLevel verdict = ''high''
          then Inl (Response 403 ''File blocked due to security concerns'')
          else Inr verdict
      | Inl e \<Rightarrow> Inr assessment_failed)"

text \<open>
  The inner \<^verbatim>\<open>catch\<close> of \<^verbatim>\<open>uploadFile\<close>: \<^verbatim>\<open>await File.findByIdAndDelete(fileRecord._id)\<close>, then
  the error is rethrown. When the clean-up call throws itself, the record stays.
\<close>

definition uploadFile_cleanup :: "file_doc list \<Rightarrow> nat \<Rightarrow> file_doc list" where
  "uploadFile_cleanup fs i =
     (case File_findByIdAndDelete fs i of
        Inl e \<Rightarrow> fs
      | Inr fs1 \<Rightarrow> fs1)"

text \<open>
  \<^verbatim>\<open>uploadFile\<close> from the lookup of the user on: \<^verbatim>\<open>User.findById\<close>, the quota check,
  \<^verbatim>\<open>new File(...)\<close> and its first \<^verbatim>\<open>save()\<close>, the upload to storage, the second \<^verbatim>\<open>save()\<close>,
  the user's storage counter and the scan queue. An exception outside the inner \<^verbatim>\<open>try\<close>
  goes to the outer \<^verbatim>\<open>catch\<close>, which answers 500; the inner \<^verbatim>\<open>catch\<close> cleans up and rethrows.
\<close>

definition uploadFile_store :: "upload_env \<Rightarrow> db \<Rightarrow> nat \<Rightarrow> upload \<Rightarrow> risk \<Rightarrow> response \<times> db" where
  "uploadFile_store env d userId up ra =
     (case User_findById (users d) userId of
        Inl e \<Rightarrow> (Response 500 ''Error uploading file'', d)
      | Inr None \<Rightarrow> (Response 404 ''User not found'', d)
      | Inr (Some usr) \<Rightarrow>
          if storageUsed usr + u_size up > storageQuota usr
          then (Response 400 ''Storage quota exceeded'', d)
          else
            (case new_File
                    \<lparr>oid = newFileId env, name = originalname up, owner = userId, sharedWith = [],
                     mimeType = mimetype up, fsize = u_size up, folderRef = folderId up,
                     status = (if isMalicious ra then Quarantined else Active),
                     storage_key = [], storage_url = [], riskAssessment = Some ra,
                     currentVersion = 1, versions = [], downloads = [],
                     quarantinedBy = None, quarantineReason = None,
                     restoredBy = None, restoreReason = None\<rparr> of
               Inl e \<Rightarrow> (Response 500 ''Error uploading file'', d)
             | Inr fileRecord \<Rightarrow>
                 (let files1 = save_new_file (files d) fileRecord
                  in case storage_uploadFile env of
                       None \<Rightarrow>
                         (Response 500 ''Error uploading file'',
                          d\<lparr>files := uploadFile_cleanup files1 (oid fileRecord)\<rparr>)
                     | Some (key, url) \<Rightarrow>
                         (let files2 = save_file files1 fileRecord
                                         (fileRecord\<lparr>storage_key := key, storage_url := url,
                                                     status := Active\<rparr>);
                              users1 = updateById
                                         (\<lambda>stored. stored\<lparr>storageUsed := storageUsed usr + u_size up\<rparr>)
                                         userId (users d)
                          in if scanQueue env = Some False
                             then (Response 500 ''Error uploading file'',
                                   d\<lparr>files := uploadFile_cleanup files2 (oid fileRecord),
                                     users := users1\<rparr>)
                             else (Response 201 ''File uploaded successfully'',
                                   d\<lparr>files := files2, users := users1\<rparr>)))))"

text \<open>
  \<^verbatim>\<open>uploadFile\<close>: \<open>userId\<close> is \<^verbatim>\<open>req.user.id\<close> and \<open>reqFile\<close> is \<^verbatim>\<open>req.file\<close>. (The message
  of the size check goes on with the configured limit in MB.)
\<close>

definition uploadFile :: "upload_env \<Rightarrow> db \<Rightarrow> nat \<Rightarrow> upload option \<Rightarrow> response \<times> db" where
  "uploadFile env d userId reqFile =
     (case reqFile of
        None \<Rightarrow> (Response 400 ''No file uploaded'', d)
      | Some up \<Rightarrow>
          if u_size up > maxFileSize env
          then (Response 400 ''File size exceeds the limit'', d)
          else (case uploadFile_assess (calculateRiskScore env) of
                  Inl blocked \<Rightarrow> (blocked, d)
                | Inr ra \<Rightarrow> uploadFile_store env d userId up ra))"


text \<open>\<^verbatim>\<open>reason || 'default'\<close>: a missing or empty reason gives the default.\<close>

definition or_default :: "string option \<Rightarrow> string \<Rightarrow> string" where
  "or_default given dflt = (case given of None \<Rightarrow> dflt | Some r \<Rightarrow> if r = [] then dflt else r)"

text \<open>
  \<^verbatim>\<open>quarantineFile\<close> (admin). \<open>relocate\<close> is \<^verbatim>\<open>storageService.quarantineFile\<close>: for a key it
  returns the new key and url, or throws (\<open>None\<close>).
\<close>

definition quarantineFile ::
  "(string \<Rightarrow> (string \<times> string) option) \<Rightarrow> db \<Rightarrow> nat \<Rightarrow> nat \<Rightarrow> string option \<Rightarrow> response \<times> db" where
  "quarantineFile relocate d adminId fileId reason =
     (case File_findById (files d) fileId of
        Inl e \<Rightarrow> (Response 500 ''Error quarantining file'', d)
      | Inr None \<Rightarrow> (Response 404 ''File not found'', d)
      | Inr (Some f) \<Rightarrow>
          if status f = Quarantined
          then (Response 200 ''File is already quarantined'', d)
          else (case relocate (storage_key f) of
                  None \<Rightarrow> (Response 500 ''Error quarantining file'', d)
                | Some (key, url) \<Rightarrow>
                    (Response 200 ''File quarantined successfully'',
                     d\<lparr>files := save_file (files d) f
                          (f\<lparr>status := Quarantined, quarantinedBy := Some adminId,
                             quarantineReason := Some (or_default reason ''Suspicious content detected''),
                             storage_key := key, storage_url := url\<rparr>)\<rparr>)))"

text \<open>\<^verbatim>\<open>restoreFile\<close> (admin). \<open>relocate\<close> is \<^verbatim>\<open>storageService.restoreFromQuarantine\<close>.\<close>

definition restoreFile ::
  "(string \<Rightarrow> (string \<times> string) option) \<Rightarrow> db \<Rightarrow> nat \<Rightarrow> nat \<Rightarrow> string option \<Rightarrow> response \<times> db" where
  "restoreFile relocate d adminId fileId reason =
     (case File_findById (files d) fileId of
        Inl e \<Rightarrow> (Response 500 ''Error restoring file'', d)
      | Inr None \<Rightarrow> (Response 404 ''File not found'', d)
      | Inr (Some f) \<Rightarrow>
          if status f \<noteq> Quarantined
          then (Response 400 ''File is not quarantined'', d)
          else (case relocate (storage_key f) of
                  None \<Rightarrow> (Response 500 ''Error restoring file'', d)
                | Some (key, url) \<Rightarrow>
                    (Response 200 ''File restored successfully'',
                     d\<lparr>files := save_file (files d) f
                          (f\<lparr>status := Active, restoredBy := Some adminId,
                             restoreReason := Some (or_default reason ''False positive''),
                             storage_key := key, storage_url := url\<rparr>)\<rparr>)))"

section \<open>Sharing\<close>

text \<open>\<^verbatim>\<open>Array.prototype.findIndex\<close>; \<open>None\<close> is the result \<open>-1\<close>.\<close>

fun findIndex :: "('a \<Rightarrow> bool) \<Rightarrow> 'a list \<Rightarrow> nat option" where
  "findIndex P [] = None"
| "findIndex P (x # xs) = (if P x then Some 0 else map_option Suc (findIndex P xs))"

text \<open>\<^verbatim>\<open>message || undefined\<close>\<close>

definition or_undefined :: "string option \<Rightarrow> string option" where
  "or_undefined m = (case m of None \<Rightarrow> None | Some t \<Rightarrow> if t = [] then None else Some t)"

text \<open>
  \<^verbatim>\<open>exports.shareFolder\<close> (\<^verbatim>\<open>folder.controller.part2.js\<close>): \<open>currentUserId\<close> is
  \<^verbatim>\<open>req.user._id\<close> and \<open>fid\<close> is \<^verbatim>\<open>req.params.id\<close>; \<open>userId\<close>, \<open>reqPermission\<close> and
  \<open>reqMessage\<close> come from the request body. An existing entry of the grantee is replaced as
  a whole.
\<close>

definition shareFolder ::
  "db \<Rightarrow> nat \<Rightarrow> nat \<Rightarrow> nat \<Rightarrow> string option \<Rightarrow> string option \<Rightarrow> response \<times> db" where
  "shareFolder d currentUserId fid userId reqPermission reqMessage =
     (case reqPermission of
        None \<Rightarrow> (Response 400 ''Invalid permission. Must be one of: view, edit, manage'', d)
      | Some perm \<Rightarrow>
          if perm \<notin> set permissionLevels
          then (Response 400 ''Invalid permission. Must be one of: view, edit, manage'', d)
          else (case findById (folders d) fid of
                  None \<Rightarrow> (Response 404 ''Folder not found'', d)
                | Some f \<Rightarrow>
                    if owner f \<noteq> currentUserId \<and> \<not> hasPermission f currentUserId MANAGE
                    then (Response 403 ''You do not have permission to share this folder'', d)
                    else if userId = currentUserId
                    then (Response 400 ''Cannot share with yourself'', d)
                    else (case User_findById (users d) userId of
                            Inl e \<Rightarrow> (Response 500 ''Error sharing folder'', d)
                          | Inr None \<Rightarrow> (Response 404 ''User not found'', d)
                          | Inr (Some targetUser) \<Rightarrow>
                              (let entry = \<lparr>user = userId, permission = perm,
                                            sharedBy = currentUserId,
                                            message = or_undefined reqMessage\<rparr>;
                                   shared = (case findIndex (\<lambda>s. user s = userId) (sharedWith f) of
                                               Some existingShareIndex \<Rightarrow>
                                                 (sharedWith f)[existingShareIndex := entry]
                                             | None \<Rightarrow> sharedWith f @ [entry])
                               in case save_folder (folders d) f (f\<lparr>sharedWith := shared\<rparr>) of
                                    Inl e \<Rightarrow> (Response 500 ''Error sharing folder'', d)
                                  | Inr (fs1, saved) \<Rightarrow>
                                      (Response 200 ''Folder shared successfully'',
                                       d\<lparr>folders := fs1\<rparr>)))))"

text \<open>
  The message of \<^verbatim>\<open>shareFile\<close> for a level it does not accept, with the double quotes of the
  source.
\<close>

definition shareFile_invalid_permission :: string where
  \<open>shareFile_invalid_permission = ''Invalid permission. Must be "view" or "edit"''\<close>

text \<open>
  \<^verbatim>\<open>shareFile\<close> (\<^verbatim>\<open>file.controller.js\<close>): \<open>userId\<close> is \<^verbatim>\<open>req.user.id\<close>; the permission
  defaults to \<^verbatim>\<open>view\<close>. The file is looked up with \<^verbatim>\<open>{ _id: id, owner: userId }\<close>. Of an
  existing entry only the permission (and the date) is assigned.
\<close>

definition shareFile ::
  "db \<Rightarrow> nat \<Rightarrow> nat \<Rightarrow> nat \<Rightarrow> string option \<Rightarrow> string option \<Rightarrow> response \<times> db" where
  "shareFile d userId fileId shareWithUserId reqPermission reqMessage =
     (let perm = (case reqPermission of None \<Rightarrow> ''view'' | Some p \<Rightarrow> p)
      in if perm \<notin> set [''view'', ''edit'']
         then (Response 400 shareFile_invalid_permission, d)
         else if userId = shareWithUserId
         then (Response 400 ''Cannot share file with yourself'', d)
         else (case File_findOne (files d) (\<lambda>f. oid f = fileId \<and> owner f = userId) of
                 Inl e \<Rightarrow> (Response 500 ''Error sharing file'', d)
               | Inr None \<Rightarrow> (Response 404 ''File not found or access denied'', d)
               | Inr (Some f) \<Rightarrow>
                   (case User_findById (users d) shareWithUserId of
                      Inl e \<Rightarrow> (Response 500 ''Error sharing file'', d)
                    | Inr None \<Rightarrow> (Response 404 ''User not found'', d)
                    | Inr (Some targetUser) \<Rightarrow>
                        (let shared =
                               (case findIndex (\<lambda>s. user s = shareWithUserId) (sharedWith f) of
                                  Some existingShareIndex \<Rightarrow>
                                    (sharedWith f)
                                      [existingShareIndex :=
                                         (sharedWith f ! existingShareIndex)\<lparr>permission := perm\<rparr>]
                                | None \<Rightarrow>
                                    sharedWith f @
                                      [\<lparr>user = shareWithUserId, permission = perm,
                                        sharedBy = userId, message = reqMessage\<rparr>])
                         in (Response 200 ''File shared successfully'',
                             d\<lparr>files := save_file (files d) f (f\<lparr>sharedWith := shared\<rparr>)\<rparr>)))))"

section \<open>Deleting a folder\<close>

text \<open>
  \<^verbatim>\<open>deleteFolderRecursive(folderId)\<close> of the controller: delete the files of the folder
  (\<^verbatim>\<open>File.deleteMany\<close>), query the subfolders, delete each of them recursively, delete the
  folder; the \<^verbatim>\<open>catch\<close> logs and rethrows (\<open>Inl\<close>). The recursion of the source is not bounded
  by its text, so the embedding has a fuel for its depth (\<open>None\<close>: the fuel is used up).
\<close>

fun deleteFolderRecursive :: "nat \<Rightarrow> db \<Rightarrow> nat \<Rightarrow> (js_error + db) option" where
  "deleteFolderRecursive 0 d fid = None"
| "deleteFolderRecursive (Suc n) d fid =
     (case File_deleteMany (files d) (\<lambda>x. folderRef x = Some fid) of
        Inl e \<Rightarrow> Some (Inl e)
      | Inr files1 \<Rightarrow>
          (let d1 = d\<lparr>files := files1\<rparr>;
               subfolders = filter (\<lambda>g. parent g = Some fid) (folders d1)
           in case fold (\<lambda>subfolder acc.
                           case acc of
                             Some (Inr d2) \<Rightarrow> deleteFolderRecursive n d2 (oid subfolder)
                           | stopped \<Rightarrow> stopped)
                     subfolders (Some (Inr d1)) of
                Some (Inr d3) \<Rightarrow> Some (Inr (d3\<lparr>folders := findByIdAndDelete (folders d3) fid\<rparr>))
              | stopped \<Rightarrow> stopped))"

text \<open>
  \<^verbatim>\<open>exports.deleteFolder\<close>: \<open>permanent\<close> is the truthiness of \<^verbatim>\<open>req.query.permanent\<close>. The
  trash branch marks the folder, decrements the parent's count and marks the direct
  children (\<^verbatim>\<open>File.updateMany\<close>, \<^verbatim>\<open>Folder.updateMany\<close>). An exception goes to the \<^verbatim>\<open>catch\<close>,
  which answers 500 and undoes nothing.
\<close>

definition deleteFolder :: "nat \<Rightarrow> db \<Rightarrow> nat \<Rightarrow> nat \<Rightarrow> bool \<Rightarrow> (response \<times> db) option" where
  "deleteFolder fuel d userId fid permanent =
     (case findById (folders d) fid of
        None \<Rightarrow> Some (Response 404 ''Folder not found'', d)
      | Some f \<Rightarrow>
          if owner f \<noteq> userId \<and> \<not> hasPermission f userId MANAGE
          then Some (Response 403 ''You do not have permission to delete this folder'', d)
          else if permanent then
            (case deleteFolderRecursive fuel d (oid f) of
               None \<Rightarrow> None
             | Some (Inl e) \<Rightarrow> Some (Response 500 ''Error deleting folder'', d)
             | Some (Inr d1) \<Rightarrow>
                 Some (Response 200 ''Folder permanently deleted'',
                       (case parent f of
                          Some p \<Rightarrow> d1\<lparr>folders := incFolderCount (folders d1) p (-1)\<rparr>
                        | None \<Rightarrow> d1)))
          else
            (case save_folder (folders d) f (f\<lparr>isTrash := True\<rparr>) of
               Inl e \<Rightarrow> Some (Response 500 ''Error deleting folder'', d)
             | Inr (fs1, saved) \<Rightarrow>
                 (let fs2 = (case parent saved of
                               Some p \<Rightarrow> incFolderCount fs1 p (-1)
                             | None \<Rightarrow> fs1)
                  in case File_updateMany (files d) (\<lambda>x. folderRef x = Some (oid saved))
                            (\<lambda>x. x\<lparr>status := Deleted\<rparr>) of
                       Inl e \<Rightarrow> Some (Response 500 ''Error deleting folder'', d\<lparr>folders := fs2\<rparr>)
                     | Inr files1 \<Rightarrow>
                         (let fs3 = map (\<lambda>g. if parent g = Some (oid saved)
                                              then g\<lparr>isTrash := True\<rparr> else g) fs2
                          in Some (Response 200 ''Folder moved to trash'',
                                   d\<lparr>folders := fs3, files := files1\<rparr>)))))"

section \<open>The path invariant of the specification\<close>

text \<open>
  Written from the specification, for comparison with what the operations leave behind:
  "for every non-root folder, \<^verbatim>\<open>path == parent.path + parent.name + "/"\<close>". A folder whose
  parent id does not resolve is not constrained.
\<close>

definition spec_path_ok :: "folder list \<Rightarrow> folder \<Rightarrow> bool" where
  "spec_path_ok fs f =
     (case parent f of
        None \<Rightarrow> True
      | Some p \<Rightarrow> (case findById fs p of
                    None \<Rightarrow> True
                  | Some par \<Rightarrow> path f = path par @ name par @ ''/''))"

definition spec_path_invariant :: "folder list \<Rightarrow> bool" where
  "spec_path_invariant fs = list_all (spec_path_ok fs) fs"

section \<open>Ancestry, and a small tree for concrete runs\<close>

text \<open>
  \<open>reaches fs b a\<close>: walking the parent chain of folder \<open>b\<close> through stored folders arrives
  at the id \<open>a\<close>, so \<open>b\<close> is a proper descendant of \<open>a\<close>.
\<close>

inductive reaches :: "folder list \<Rightarrow> nat \<Rightarrow> nat \<Rightarrow> bool" for fs :: "folder list" where
  parent_of: "findById fs b = Some f \<Longrightarrow> parent f = Some a \<Longrightarrow> reaches fs b a"
| further: "findById fs b = Some f \<Longrightarrow> parent f = Some c \<Longrightarrow> reaches fs c a \<Longrightarrow> reaches fs b a"

code_pred reaches .

text \<open>A resource of user 10 that is shared with user 2 at level \<^verbatim>\<open>edit\<close>.\<close>

definition ex_shared_doc :: resource where
  "ex_shared_doc = \<lparr>oid = 7, name = ''docs'', owner = 10,
     sharedWith = [\<lparr>user = 2, permission = EDIT, sharedBy = 10, message = None\<rparr>]\<rparr>"

text \<open>
  User 10 owns folder \<^verbatim>\<open>A\<close> at root level, \<^verbatim>\<open>B\<close> in \<^verbatim>\<open>A\<close> and \<^verbatim>\<open>C\<close> in \<^verbatim>\<open>B\<close>, with the paths
  and counts the path and count invariants ask for.
\<close>

definition ex_A :: folder where
  "ex_A = \<lparr>oid = 1, name = ''A'', owner = 10, sharedWith = [], parent = None,
           path = ''/'', isTrash = False, folderCount = 1\<rparr>"

definition ex_B :: folder where
  "ex_B = \<lparr>oid = 2, name = ''B'', owner = 10, sharedWith = [], parent = Some 1,
           path = ''/A/'', isTrash = False, folderCount = 1\<rparr>"

definition ex_C :: folder where
  "ex_C = \<lparr>oid = 3, name = ''C'', owner = 10, sharedWith = [], parent = Some 2,
           path = ''/A/B/'', isTrash = False, folderCount = 0\<rparr>"

definition ex_tree :: db where
  "ex_tree = \<lparr>folders = [ex_A, ex_B, ex_C], files = [], users = []\<rparr>"

text \<open>Folder \<^verbatim>\<open>A\<close> alone, without children.\<close>

definition ex_root :: db where
  "ex_root = \<lparr>folders = [ex_A\<lparr>folderCount := 0\<rparr>], files = [], users = []\<rparr>"

text \<open>\<^verbatim>\<open>A\<close> and \<^verbatim>\<open>B\<close> in \<^verbatim>\<open>A\<close>, next to a second live folder named \<^verbatim>\<open>B\<close> of user 10 at root level.\<close>

definition ex_B_root :: folder where
  "ex_B_root = \<lparr>oid = 4, name = ''B'', owner = 10, sharedWith = [], parent = None,
                path = ''/'', isTrash = False, folderCount = 0\<rparr>"

definition ex_clash :: db where
  "ex_clash = \<lparr>folders = [ex_A, ex_B\<lparr>folderCount := 0\<rparr>, ex_B_root], files = [], users = []\<rparr>"

text \<open>
  A stored file of user 10 with one user account, a storage collaborator that relocates
  every key, an upload request, and an environment in which the call of the risk
  assessment throws
  while storage accepts the upload.
\<close>

definition ex_file :: file_doc where
  "ex_file = \<lparr>oid = 100, name = ''report.txt'', owner = 10, sharedWith = [],
              mimeType = ''text/plain'', fsize = 10, folderRef = None, status = Active,
              storage_key = ''uploads/v1.txt'', storage_url = ''https://s3/uploads/v1.txt'',
              riskAssessment = None, currentVersion = 1, versions = [], downloads = [],
              quarantinedBy = None, quarantineReason = None, restoredBy = None,
              restoreReason = None\<rparr>"

definition ex_files :: db where
  "ex_files = \<lparr>folders = [], files = [ex_file],
               users = [\<lparr>oid = 10, storageUsed = 10, storageQuota = 1000\<rparr>]\<rparr>"

definition ex_quarantined :: db where
  "ex_quarantined = ex_files\<lparr>files := [ex_file\<lparr>status := Quarantined\<rparr>]\<rparr>"

definition ex_relocate :: "string \<Rightarrow> (string \<times> string) option" where
  "ex_relocate k = Some (''quarantine/'' @ k, ''https://s3/quarantine/'' @ k)"





text \<open>
  The tree of \<^verbatim>\<open>A\<close>, \<^verbatim>\<open>B\<close>, \<^verbatim>\<open>C\<close> with one file in each folder, and what would be left of it
  without \<^verbatim>\<open>B\<close> and all below it.
\<close>

definition ex_in_A :: file_doc where
  "ex_in_A = ex_file\<lparr>oid := 201, folderRef := Some 1\<rparr>"

definition ex_in_B :: file_doc where
  "ex_in_B = ex_file\<lparr>oid := 202, folderRef := Some 2\<rparr>"

definition ex_in_C :: file_doc where
  "ex_in_C = ex_file\<lparr>oid := 203, folderRef := Some 3\<rparr>"

definition ex_full :: db where
  "ex_full = \<lparr>folders = [ex_A, ex_B, ex_C], files = [ex_in_A, ex_in_B, ex_in_C], users = []\<rparr>"

definition ex_after :: db where
  "ex_after = \<lparr>folders = [ex_A\<lparr>folderCount := 0\<rparr>], files = [ex_in_A], users = []\<rparr>"





section \<open>Claims\<close>

subsection \<open>Collection operations\<close>

lemma findById_oid: "findById ds i = Some x \<Longrightarrow> oid x = i"
  by (auto simp: findById_def find_Some_iff)

lemma findById_None_iff: "findById fs i = None \<longleftrightarrow> i \<notin> set (map oid fs)"
  by (auto simp: findById_def find_None_iff)

lemma findById_find:
  "findById fs j = Some f \<Longrightarrow> P f \<Longrightarrow> find (\<lambda>x. oid x = j \<and> P x) fs = Some f"
  by (induction fs) (auto simp: findById_def split: if_splits)

lemma findById_updateById:
  "findById fs i = Some f \<Longrightarrow> oid (g f) = i \<Longrightarrow> findById (updateById g i fs) i = Some (g f)"
  by (induction fs) (auto simp: findById_def)

lemma findById_append_fresh:
  "findById xs i = None \<Longrightarrow> findById (xs @ [r]) i = (if oid r = i then Some r else None)"
  by (induction xs) (auto simp: findById_def split: if_splits)

lemma updateById_append_fresh:
  "findById xs i = None \<Longrightarrow> oid r = i \<Longrightarrow> updateById g i (xs @ [r]) = xs @ [g r]"
  by (induction xs) (auto simp: findById_def split: if_splits)

lemma map_oid_updateById:
  "(\<And>x. oid (g x) = oid x) \<Longrightarrow> map oid (updateById g p fs) = map oid fs"
  by (induction fs) auto

lemma findById_incFolderCount_None:
  "findById fs i = None \<Longrightarrow> findById (incFolderCount fs p k) i = None"
  by (simp add: findById_None_iff incFolderCount_def map_oid_updateById)

lemma findByIdAndDelete_distinct:
  "distinct (map oid xs) \<Longrightarrow> findByIdAndDelete xs i = filter (\<lambda>g. oid g \<noteq> i) xs"
proof (induction xs)
  case Nil
  then show ?case by simp
next
  case (Cons x xs)
  show ?case
  proof (cases "oid x = i")
    case True
    with Cons.prems have "\<forall>g \<in> set xs. oid g \<noteq> i" by (auto simp: image_iff)
    then have "filter (\<lambda>g. oid g \<noteq> i) xs = xs" by (simp add: filter_id_conv)
    with True show ?thesis by simp
  next
    case False
    with Cons show ?thesis by simp
  qed
qed

subsection \<open>Access control\<close>

lemma indexOf_levels:
  "indexOf permissionLevels VIEW = 0"
  "indexOf permissionLevels EDIT = 1"
  "indexOf permissionLevels MANAGE = 2"
  by (simp_all add: indexOf_def permissionLevels_def VIEW_def EDIT_def MANAGE_def)

lemma indexOf_spec_ordinal:
  "indexOf permissionLevels p = (case spec_ordinal p of None \<Rightarrow> -1 | Some k \<Rightarrow> int k)"
  by (simp add: indexOf_def permissionLevels_def VIEW_def EDIT_def MANAGE_def spec_ordinal_def)

lemma spec_ordinal_level:
  "req \<in> set permissionLevels \<Longrightarrow> \<exists>b. spec_ordinal req = Some b"
  by (auto simp: permissionLevels_def VIEW_def EDIT_def MANAGE_def spec_ordinal_def)

lemma hasPermission_spec_check:
  assumes "req \<in> set permissionLevels"
  shows "hasPermission r u req = spec_check r u req"
proof -
  from assms obtain b where b: "spec_ordinal req = Some b"
    using spec_ordinal_level by blast
  show ?thesis
    unfolding hasPermission_def spec_check_def indexOf_spec_ordinal Let_def b
    by (simp split: option.splits)
qed

text \<open>
  Claim C3. For a folder or a file \<open>r\<close>, a user \<open>u\<close> and a required level: for each of the
  three levels \<^verbatim>\<open>view\<close>, \<^verbatim>\<open>edit\<close>, \<^verbatim>\<open>manage\<close> as the required one, \<open>hasPermission\<close> is the check
  of the specification. In detail, the check is true when \<open>u\<close> owns \<open>r\<close>; it is false when
  \<open>u\<close> is not the owner and has no entry in \<open>sharedWith\<close>; otherwise it is true exactly when
  the index of the granted level (of the user's first entry) in the fixed list
  view(0), edit(1), manage(2) is at least the index of the required level. In particular a
  grantee with \<^verbatim>\<open>edit\<close> passes the \<^verbatim>\<open>view\<close> and \<^verbatim>\<open>edit\<close> checks and fails \<^verbatim>\<open>manage\<close>.
\<close>

theorem hasPermission_resolution:
  fixes r :: "'a resource_scheme"
  shows "(req \<in> set permissionLevels \<longrightarrow> hasPermission r u req = spec_check r u req)
    \<and> (owner r = u \<longrightarrow> hasPermission r u req)
    \<and> (owner r \<noteq> u \<and> find (\<lambda>s. user s = u) (sharedWith r) = None \<longrightarrow> \<not> hasPermission r u req)
    \<and> (\<forall>g. owner r \<noteq> u \<and> find (\<lambda>s. user s = u) (sharedWith r) = Some g \<longrightarrow>
           hasPermission r u req
             = (indexOf permissionLevels (permission g) \<ge> indexOf permissionLevels req))
    \<and> indexOf permissionLevels VIEW = 0 \<and> indexOf permissionLevels EDIT = 1
    \<and> indexOf permissionLevels MANAGE = 2
    \<and> (\<forall>g. owner r \<noteq> u \<and> find (\<lambda>s. user s = u) (sharedWith r) = Some g \<and> permission g = EDIT \<longrightarrow>
           hasPermission r u VIEW \<and> hasPermission r u EDIT \<and> \<not> hasPermission r u MANAGE)"
proof -
  have spec: "req \<in> set permissionLevels \<longrightarrow> hasPermission r u req = spec_check r u req"
    using hasPermission_spec_check by blast
  have detail: "(owner r = u \<longrightarrow> hasPermission r u req)
    \<and> (owner r \<noteq> u \<and> find (\<lambda>s. user s = u) (sharedWith r) = None \<longrightarrow> \<not> hasPermission r u req)
    \<and> (\<forall>g. owner r \<noteq> u \<and> find (\<lambda>s. user s = u) (sharedWith r) = Some g \<longrightarrow>
           hasPermission r u req
             = (indexOf permissionLevels (permission g) \<ge> indexOf permissionLevels req))
    \<and> indexOf permissionLevels VIEW = 0 \<and> indexOf permissionLevels EDIT = 1
    \<and> indexOf permissionLevels MANAGE = 2
    \<and> (\<forall>g. owner r \<noteq> u \<and> find (\<lambda>s. user s = u) (sharedWith r) = Some g \<and> permission g = EDIT \<longrightarrow>
           hasPermission r u VIEW \<and> hasPermission r u EDIT \<and> \<not> hasPermission r u MANAGE)"
    by (simp add: hasPermission_def indexOf_levels)
  from spec detail show ?thesis by (rule conjI)
qed

theorem hasPermission_resolution_witness:
  "hasPermission ex_shared_doc 10 MANAGE
   \<and> \<not> hasPermission ex_shared_doc 3 VIEW
   \<and> hasPermission ex_shared_doc 2 VIEW
   \<and> hasPermission ex_shared_doc 2 EDIT
   \<and> \<not> hasPermission ex_shared_doc 2 MANAGE
   \<and> \<not> spec_check ex_shared_doc 2 MANAGE"
proof -
  have facts: "owner ex_shared_doc = 10"
    "find (\<lambda>s. user s = 3) (sharedWith ex_shared_doc) = None"
    "find (\<lambda>s. user s = 2) (sharedWith ex_shared_doc)
       = Some \<lparr>user = 2, permission = EDIT, sharedBy = 10, message = None\<rparr>"
    "MANAGE \<in> set permissionLevels"
    by (simp_all add: ex_shared_doc_def permissionLevels_def)
  from hasPermission_resolution [where r = ex_shared_doc and u = 10 and req = MANAGE]
    hasPermission_resolution [where r = ex_shared_doc and u = 3 and req = VIEW]
    hasPermission_resolution [where r = ex_shared_doc and u = 2 and req = MANAGE]
  show ?thesis
    using facts by (simp, blast)
qed

subsection \<open>Moving a folder\<close>

lemma reaches_isDescendantLoop:
  "reaches fs b a \<Longrightarrow> isDescendantLoop fs a (Some b) = Some True"
proof (induction rule: reaches.induct)
  case (parent_of b f a)
  then show ?case by (subst isDescendantLoop.simps) simp
next
  case (further b f c a)
  then show ?case by (subst isDescendantLoop.simps) simp
qed

text \<open>
  Claim C1. Let \<open>A\<close> be the stored folder with id \<open>a\<close> and \<open>B\<close> the stored folder with id
  \<open>b\<close>, where \<open>b\<close> is \<open>a\<close> itself or the parent chain of \<open>b\<close> arrives at \<open>a\<close>. Then
  \<^verbatim>\<open>moveFolder(a, b)\<close> answers, for every caller and every fuel, and leaves the database as
  it was. For a caller who passes the two permission checks the answer is the circular
  reference error: 400 "Cannot move a folder into itself" when \<open>b = a\<close>, 400 "Cannot move a
  folder into one of its subfolders" otherwise. (A caller who fails a permission check is
  answered 403 by the check, which comes first.)
\<close>

theorem moveFolder_circular:
  assumes "findById (folders d) a = Some A"
    and "findById (folders d) b = Some B"
    and "b = a \<or> reaches (folders d) b a"
  shows "moveFolder fuel d u a (Some b) =
     Some (if owner A \<noteq> u \<and> \<not> hasPermission A u EDIT
           then Response 403 ''You do not have permission to move this folder''
           else if owner B \<noteq> u \<and> \<not> hasPermission B u EDIT
           then Response 403 ''You do not have permission to move to the destination folder''
           else if b = a then Response 400 ''Cannot move a folder into itself''
           else Response 400 ''Cannot move a folder into one of its subfolders'', d)"
proof -
  have oa: "oid A = a" using assms(1) by (rule findById_oid)
  show ?thesis
  proof (cases "b = a")
    case True
    with assms oa show ?thesis by (simp add: moveFolder_def)
  next
    case False
    with assms(3) have "reaches (folders d) b a" by simp
    then have "isDescendantLoop (folders d) a (Some b) = Some True"
      by (rule reaches_isDescendantLoop)
    with assms False oa show ?thesis by (simp add: moveFolder_def isDescendantFolder_def)
  qed
qed

lemma ex_tree_find:
  "findById (folders ex_tree) 1 = Some ex_A"
  "findById (folders ex_tree) 2 = Some ex_B"
  "findById (folders ex_tree) 3 = Some ex_C"
  by (simp_all add: ex_tree_def findById_def ex_A_def ex_B_def ex_C_def)

theorem moveFolder_circular_witness:
  "moveFolder 5 ex_tree 10 1 (Some 3)
     = Some (Response 400 ''Cannot move a folder into one of its subfolders'', ex_tree)
   \<and> moveFolder 5 ex_tree 10 1 (Some 1)
     = Some (Response 400 ''Cannot move a folder into itself'', ex_tree)"
proof -
  have "reaches (folders ex_tree) 2 1"
    by (rule reaches.parent_of [OF ex_tree_find(2)]) (simp add: ex_B_def)
  then have r: "reaches (folders ex_tree) 3 1"
    by (rule reaches.further [OF ex_tree_find(3), rotated]) (simp add: ex_C_def)
  have "owner ex_A = 10" "owner ex_C = 10"
    by (simp_all add: ex_A_def ex_C_def)
  then show ?thesis
    using moveFolder_circular [OF ex_tree_find(1) ex_tree_find(3), of 5 10] r
      moveFolder_circular [OF ex_tree_find(1) ex_tree_find(1), of 5 10]
    by simp
qed

subsection \<open>The path invariant\<close>

lemma oid_write_folder [simp]: "oid (write_folder a b c) = oid c"
  by (simp add: write_folder_def)

text \<open>
  Every folder created in a root-level folder \<open>P\<close> is stored with the path \<^verbatim>\<open>/\<close> followed by
  the name of \<open>P\<close>, without the trailing slash, whatever the path the controller assigned.
\<close>

lemma createFolder_under_root_level:
  assumes P: "findById (folders d) p = Some P" and root: "parent P = None"
    and may: "owner P = u \<or> hasPermission P u EDIT"
    and nm: "trim nm \<noteq> []"
    and free: "find (\<lambda>g. name g = trim nm \<and> parent g = Some p \<and> owner g = u \<and> \<not> isTrash g)
                 (folders d) = None"
    and fresh: "findById (folders d) newId = None"
  shows "fst (createFolder d u newId nm (Some p)) = Response 201 []
     \<and> map_option path (findById (folders (snd (createFolder d u newId nm (Some p)))) newId)
         = Some (''/'' @ name P)"
proof -
  have op: "oid P = p" using P by (rule findById_oid)
  define P1 where "P1 = P\<lparr>folderCount := folderCount P + 1\<rparr>"
  define fs1 where "fs1 = updateById (write_folder P P1) p (folders d)"
  have sv: "save_folder (folders d) P P1 = Inr (fs1, P1)"
    by (simp add: save_folder_def folder_pre_save_def P1_def fs1_def op)
  have f1: "findById fs1 p = Some (write_folder P P1 P)"
    unfolding fs1_def using P by (rule findById_updateById) (simp add: op)
  have par: "parent (write_folder P P1 P) = None" "name (write_folder P P1 P) = name P"
    using root by (simp_all add: write_folder_def P1_def)
  have fr1: "findById fs1 newId = None"
    unfolding fs1_def using fresh by (simp add: findById_None_iff map_oid_updateById)
  define nf where "nf = \<lparr>oid = newId, name = trim nm, owner = u, sharedWith = [],
         parent = Some p, path = path P @ name P @ ''/'', isTrash = False, folderCount = 0\<rparr>"
  have hook: "folder_pre_save fs1 True True nf
      = Inr (incFolderCount fs1 p 1, nf\<lparr>path := ''/'' @ name P\<rparr>)"
    by (simp add: folder_pre_save_def nf_def f1 fullPath_def par)
  have fr2: "findById (incFolderCount fs1 p 1) newId = None"
    using fr1 by (rule findById_incFolderCount_None)
  have res: "createFolder d u newId nm (Some p)
      = (Response 201 [], d\<lparr>folders := incFolderCount fs1 p 1 @ [nf\<lparr>path := ''/'' @ name P\<rparr>]\<rparr>)"
    using nm free P may sv hook
    by (auto simp: createFolder_def createFolder_save_def save_new_folder_def Let_def P1_def nf_def)
  show ?thesis
    unfolding res using fr2 by (simp add: findById_append_fresh nf_def)
qed

text \<open>
  Claim C2 (the code departs from it). After every completed \<^verbatim>\<open>createFolder\<close> or
  \<^verbatim>\<open>moveFolder\<close> every non-root folder should have the path
  \<^verbatim>\<open>parent.path + parent.name + "/"\<close>. Two completed operations on states that satisfy the
  invariant leave it broken.
  \<^item> \<^verbatim>\<open>createFolder\<close> of \<^verbatim>\<open>B\<close> in the root-level folder \<^verbatim>\<open>A\<close> answers 201 and stores \<^verbatim>\<open>B\<close> with
    path \<^verbatim>\<open>/A\<close>, not \<^verbatim>\<open>/A/\<close>: the controller assigns \<^verbatim>\<open>/A/\<close>, and the \<^verbatim>\<open>pre('save')\<close> hook
    overwrites it with the parent's \<^verbatim>\<open>fullPath\<close>, which has no trailing slash for a
    root-level parent.
  \<^item> \<^verbatim>\<open>moveFolder\<close> of the root-level folder \<^verbatim>\<open>A\<close> to root answers 200 and recomputes
    the paths of the descendants as \<^verbatim>\<open>parentPath + child.name + "/"\<close>: \<^verbatim>\<open>B\<close> in \<^verbatim>\<open>A\<close> gets
    \<^verbatim>\<open>/B/\<close> instead of \<^verbatim>\<open>/A/\<close>, and \<^verbatim>\<open>C\<close> in \<^verbatim>\<open>B\<close> gets \<^verbatim>\<open>/B/C/\<close>.
\<close>

theorem path_invariant_broken:
  "spec_path_invariant (folders ex_root)
   \<and> createFolder ex_root 10 2 ''B'' (Some 1)
       = (Response 201 [],
          \<lparr>folders = [ex_A\<lparr>folderCount := 2\<rparr>, ex_B\<lparr>path := ''/A'', folderCount := 0\<rparr>],
           files = [], users = []\<rparr>)
   \<and> \<not> spec_path_invariant (folders (snd (createFolder ex_root 10 2 ''B'' (Some 1))))
   \<and> spec_path_invariant (folders ex_tree)
   \<and> moveFolder 5 ex_tree 10 1 None
       = Some (Response 200 ''Folder moved to root'',
               \<lparr>folders = [ex_A, ex_B\<lparr>path := ''/B/''\<rparr>, ex_C\<lparr>path := ''/B/C/''\<rparr>],
                files = [], users = []\<rparr>)
   \<and> \<not> spec_path_invariant (folders (snd (the (moveFolder 5 ex_tree 10 1 None))))"
  by code_simp

subsection \<open>Moving a folder to root\<close>

text \<open>
  For every stored folder that has a parent, and every caller who passes the permission
  check, the move to root ends in the answer 500 with the old parent's count decremented
  and nothing else written.
\<close>

lemma moveFolder_toRoot_with_parent:
  assumes "findById (folders d) i = Some f" and "parent f = Some p"
    and "owner f = u \<or> hasPermission f u EDIT"
  shows "moveFolder fuel d u i None
     = Some (Response 500 ''Error moving folder'',
             d\<lparr>folders := incFolderCount (folders d) p (-1)\<rparr>)"
  using assms
  by (auto simp: moveFolder_def moveFolder_toRoot_def save_folder_def folder_pre_save_def
      model_updateDescendantPaths_def)

text \<open>
  Claim C10 (the code departs from it). A caller with edit permission who moves a folder to
  root should always succeed, with the old parent's count decremented, the parent set to
  null, the path set to \<^verbatim>\<open>/\<close> and the descendant paths recomputed, without any name check.
  For a folder that has a parent the controller decrements the old parent's count and then
  \<^verbatim>\<open>folder.save()\<close> rejects: \<^verbatim>\<open>parent\<close> is modified, so the hook takes its second branch and
  calls the model's \<^verbatim>\<open>updateDescendantPaths\<close> without a receiver. The controller answers
  500; the folder keeps its parent and its path, and the old parent has lost one count.
  Here user 10 moves \<^verbatim>\<open>B\<close> (in \<^verbatim>\<open>A\<close>) to root, where a live folder \<^verbatim>\<open>B\<close> of the same owner is.
\<close>

theorem moveFolder_toRoot_rejected:
  "moveFolder 5 ex_clash 10 2 None
     = Some (Response 500 ''Error moving folder'',
             \<lparr>folders = [ex_A\<lparr>folderCount := 0\<rparr>, ex_B\<lparr>folderCount := 0\<rparr>, ex_B_root],
              files = [], users = []\<rparr>)"
  by code_simp

subsection \<open>Stored documents after a save\<close>

lemma oid_file_pre_save [simp]: "oid (file_pre_save a b t) = oid t"
  by (simp add: file_pre_save_def)

lemma status_file_pre_save [simp]: "status (file_pre_save a b t) = status t"
  by (simp add: file_pre_save_def)

lemma storage_key_file_pre_save [simp]: "storage_key (file_pre_save a b t) = storage_key t"
  by (simp add: file_pre_save_def)

lemma findById_save_file:
  "findById fs i = Some f \<Longrightarrow> oid t = i \<Longrightarrow>
   findById (save_file fs f t) i = Some (file_pre_save False (storage_key t \<noteq> storage_key f) t)"
  unfolding save_file_def by (simp add: findById_updateById)

subsection \<open>Versioning\<close>

text \<open>
  Whenever an existing file is saved with a changed, non-empty storage key, the entry that
  the hook appends is made of the values being written.
\<close>

lemma version_entry_general:
  assumes "findById fs i = Some f" and "oid t = i"
    and "storage_key t \<noteq> storage_key f" and "storage_key t \<noteq> []"
  shows "map_option versions (findById (save_file fs f t) i)
     = Some (versions t @ [\<lparr>version = currentVersion t, storageKey = storage_key t,
                             v_size = fsize t, v_mimeType = mimeType t, uploadedBy = owner t\<rparr>])"
  using assms by (simp add: findById_save_file file_pre_save_def)

text \<open>
  Claim C4 (the code departs from it). When the storage locator of an existing file is
  replaced, the history entry should capture the previous locator, size and mimeType. The
  hook runs on the document that already carries the new values, so the entry it appends
  has the new key, the new size and the new mimeType under the old version number; the
  previous locator is recorded nowhere. Here \<^verbatim>\<open>uploads/v1.txt\<close> (10 bytes, text/plain) is
  replaced by \<^verbatim>\<open>uploads/v2.png\<close> (20 bytes, image/png).
\<close>

theorem version_entry_holds_new_locator:
  "save_file [ex_file] ex_file
     (ex_file\<lparr>storage_key := ''uploads/v2.png'', fsize := 20, mimeType := ''image/png''\<rparr>)
   = [ex_file\<lparr>storage_key := ''uploads/v2.png'', fsize := 20, mimeType := ''image/png'',
              versions := [\<lparr>version = 1, storageKey = ''uploads/v2.png'', v_size = 20,
                            v_mimeType = ''image/png'', uploadedBy = 10\<rparr>],
              currentVersion := 2\<rparr>]"
  by code_simp


subsection \<open>What the unbound models make of the file controllers\<close>

text \<open>
  \<^verbatim>\<open>File\<close> and \<^verbatim>\<open>User\<close> not being the models in the controllers, the first query of a
  handler on either of them ends the handler: the \<^verbatim>\<open>catch\<close> answers 500. Whatever the
  arguments, \<^verbatim>\<open>quarantineFile\<close>, \<^verbatim>\<open>restoreFile\<close> and \<^verbatim>\<open>downloadFile\<close> answer 500 and write
  nothing, and so does an upload that has passed the risk assessment.
\<close>

lemma quarantineFile_answer:
  "quarantineFile rel d a i r = (Response 500 ''Error quarantining file'', d)"
  by (simp add: quarantineFile_def File_findById_def)

lemma restoreFile_answer:
  "restoreFile rel d a i r = (Response 500 ''Error restoring file'', d)"
  by (simp add: restoreFile_def File_findById_def)


lemma uploadFile_store_answer:
  "uploadFile_store env d u up ra = (Response 500 ''Error uploading file'', d)"
  by (simp add: uploadFile_store_def User_findById_def)

lemma uploadFile_db: "snd (uploadFile env d u req) = d"
  by (simp add: uploadFile_def uploadFile_store_answer split: option.splits sum.splits)

subsection \<open>Quarantine and restore\<close>

text \<open>
  Claim C5 (the code departs from it). Quarantine of a file that is already \<^verbatim>\<open>quarantined\<close>
  should be a no-op and not an error, quarantine is for \<^verbatim>\<open>active\<close> files and restore for
  \<^verbatim>\<open>quarantined\<close> ones. Both handlers have the branches for it (\<^verbatim>\<open>Skip if already
  quarantined\<close> answers 200), but neither reaches them: \<^verbatim>\<open>File.findById\<close> throws, and the
  answer is the 500 of the \<^verbatim>\<open>catch\<close>. For the file 100, stored \<^verbatim>\<open>quarantined\<close>, a second
  quarantine is answered with an error and its restore as well; stored \<^verbatim>\<open>active\<close>, its
  quarantine is answered with an error and it stays \<^verbatim>\<open>active\<close>. No relocation is asked of
  the storage collaborator and no status changes.
\<close>

theorem quarantine_restore_rejected:
  "map_option status (findById (files ex_quarantined) 100) = Some Quarantined
   \<and> quarantineFile ex_relocate ex_quarantined 1 100 None
       = (Response 500 ''Error quarantining file'', ex_quarantined)
   \<and> restoreFile ex_relocate ex_quarantined 1 100 None
       = (Response 500 ''Error restoring file'', ex_quarantined)
   \<and> map_option status (findById (files ex_files) 100) = Some Active
   \<and> quarantineFile ex_relocate ex_files 1 100 None
       = (Response 500 ''Error quarantining file'', ex_files)"
  by code_simp

subsection \<open>Upload and download\<close>







subsection \<open>Permanent deletion\<close>

text \<open>
  The first statement of \<^verbatim>\<open>deleteFolderRecursive\<close> is \<^verbatim>\<open>File.deleteMany\<close>, which throws: the
  permanent deletion of a stored folder by a caller who may delete it is answered 500, and
  neither a folder nor a file is removed.
\<close>

lemma deleteFolderRecursive_throws:
  "deleteFolderRecursive (Suc n) d fid = Some (Inl TypeError)"
  by (simp add: File_deleteMany_def)

lemma deleteFolder_permanent_stored:
  assumes "findById (folders d) fid = Some f"
    and "owner f = u \<or> hasPermission f u MANAGE"
  shows "deleteFolder (Suc n) d u fid True = Some (Response 500 ''Error deleting folder'', d)"
  using assms by (auto simp: deleteFolder_def File_deleteMany_def)

text \<open>
  Claim C8, as stated, fails. Permanent deletion of an id that is not stored, as it is
  after a deletion, is an error: folder 2 is not in the tree that holds folder \<^verbatim>\<open>A\<close> alone,
  and the answer is 404 "Folder not found". And permanent deletion of the stored folder
  \<^verbatim>\<open>B\<close> by its owner removes nothing: the answer is 500 and the three folders and the three
  files are all still there.
\<close>

theorem deleteFolder_twice_counterexample:
  "findById (folders ex_after) 2 = None
   \<and> deleteFolder 5 ex_after 10 2 True = Some (Response 404 ''Folder not found'', ex_after)
   \<and> deleteFolder 5 ex_full 10 2 True = Some (Response 500 ''Error deleting folder'', ex_full)
   \<and> map oid (folders ex_full) = [1, 2, 3]
   \<and> map oid (files ex_full) = [201, 202, 203]"
  by code_simp

text \<open>
  Claim C8, amended. Invoking the deletion, permanent or not, on an id that is not stored,
  such as one that was already deleted, is answered 404 "Folder not found" and changes
  nothing: an error, not a no-op that succeeds. (What the permanent deletion of a stored
  folder removes is not part of the amended claim.)
\<close>

theorem deleteFolder_absent_id:
  assumes "findById (folders d) fid = None"
  shows "deleteFolder fuel d u fid permanent = Some (Response 404 ''Folder not found'', d)"
  using assms by (simp add: deleteFolder_def)

theorem deleteFolder_absent_id_witness:
  "findById (folders ex_root) 2 = None
   \<and> deleteFolder 3 ex_root 10 2 True = Some (Response 404 ''Folder not found'', ex_root)"
proof -
  have a: "findById (folders ex_root) 2 = None"
    by code_simp
  from deleteFolder_absent_id [OF a, of 3 10 True] a show ?thesis
    by simp
qed

subsection \<open>Sharing\<close>





lemma shareFolder_past_checks:
  assumes "p \<in> set permissionLevels" and "findById (folders d) fid = Some f"
    and "owner f = cu \<or> hasPermission f cu MANAGE" and "u \<noteq> cu"
  shows "shareFolder d cu fid u (Some p) msg = (Response 500 ''Error sharing folder'', d)"
  using assms by (auto simp: shareFolder_def User_findById_def)

lemma shareFile_past_checks:
  assumes "p = ''view'' \<or> p = ''edit''" and "u \<noteq> cu"
  shows "shareFile d cu fileId u (Some p) msg = (Response 500 ''Error sharing file'', d)"
  using assms by (auto simp: shareFile_def File_findOne_def)






end
